theory Spec2Isabelle
  imports Complex_Main "HOL-Library.Sublist"
begin

section \<open>Data model of \<^verbatim>\<open>scraper/update_movies.py\<close>\<close>

text \<open>
  The script works on Python dictionaries. A dictionary entry is in one of three states:
  the key is missing, the key is present and holds \<^verbatim>\<open>None\<close>, or the key holds a value of
  the type the catalog API documents for it. \<^verbatim>\<open>d[k]\<close> raises \<^verbatim>\<open>KeyError\<close> on a missing key
  and \<^verbatim>\<open>d.get(k, dflt)\<close> returns \<^verbatim>\<open>dflt\<close> there; both return \<^verbatim>\<open>None\<close> for a key
  that holds \<^verbatim>\<open>None\<close>.

  Ratings and popularity are Python floats. A float is modelled by the rational number it
  denotes, so the comparisons the code makes are the comparisons of these numbers. The
  sum of floats, the division \<^verbatim>\<open>/\<close> and \<^verbatim>\<open>round(x, 2)\<close> round their results in
  double precision; they are operations of the Python runtime and a parameter of the
  model, of which nothing is assumed.
\<close>

datatype py_error = KeyError | TypeError

datatype 'a field = Absent | Null | Val 'a

text \<open>The dictionary the fetchers build for one movie, and \<^verbatim>\<open>calculate_stats\<close> reads.\<close>

record item =
  item_id :: int
  title :: "string field"
  rating :: "rat field"
  genres :: "string list field"
  poster_path :: "string option"
  release_date :: "string option"
  popularity :: "rat field"
  vote_count :: "int field"

text \<open>The dictionary \<^verbatim>\<open>calculate_stats\<close> appends for one genre.\<close>

record genre_stats =
  genre_name :: string
  average_rating :: rat
  average_popularity :: rat
  total_votes :: int
  movie_count :: nat
  top_movies :: "item list"

section \<open>\<^verbatim>\<open>calculate_stats\<close>\<close>

text \<open>
  \<^verbatim>\<open>stats = defaultdict(list)\<close> keeps its keys in insertion order; it is an association
  list here. \<^verbatim>\<open>stats[genre].append(m)\<close> appends to the group of an existing key and
  creates the key, last, otherwise.
\<close>

type_synonym groups = "(string \<times> item list) list"

fun stats_append :: "groups \<Rightarrow> string \<Rightarrow> item \<Rightarrow> groups" where
  "stats_append [] g m = [(g, [m])]"
| "stats_append ((k, ms) # rest) g m =
     (if k = g then (k, ms @ [m]) # rest else (k, ms) # stats_append rest g m)"

text \<open>
  Line 205: \<^verbatim>\<open>m.get("vote_count", 0) > 0 and m.get("rating", 0) > 0\<close>. Comparing \<^verbatim>\<open>None\<close>
  with \<^verbatim>\<open>0\<close> raises \<^verbatim>\<open>TypeError\<close>; \<^verbatim>\<open>and\<close> does not evaluate its right operand when
  the left one is false.
\<close>

definition has_rating :: "item \<Rightarrow> py_error + bool" where
  "has_rating m =
     (case vote_count m of
        Null \<Rightarrow> Inl TypeError
      | Absent \<Rightarrow> Inr False
      | Val v \<Rightarrow>
          if 0 < v then
            (case rating m of
               Null \<Rightarrow> Inl TypeError
             | Absent \<Rightarrow> Inr False
             | Val r \<Rightarrow> Inr (0 < r))
          else Inr False)"

text \<open>Lines 203 to 209: the loop that fills \<^verbatim>\<open>stats\<close> and \<^verbatim>\<open>skipped_movies\<close>.\<close>

fun group_movies :: "item list \<Rightarrow> groups \<Rightarrow> item list \<Rightarrow> py_error + (groups \<times> item list)" where
  "group_movies [] stats skipped = Inr (stats, skipped)"
| "group_movies (m # ms) stats skipped =
     (case has_rating m of
        Inl e \<Rightarrow> Inl e
      | Inr ok \<Rightarrow>
          if ok then
            (case genres m of
               Absent \<Rightarrow> Inl KeyError
             | Null \<Rightarrow> Inl TypeError
             | Val gs \<Rightarrow> group_movies ms (foldl (\<lambda>s g. stats_append s g m) stats gs) skipped)
          else group_movies ms stats (skipped @ [m]))"

text \<open>
  Lines 212 to 217: every skipped movie is logged with \<^verbatim>\<open>sm["genres"]\<close> joined and
  \<^verbatim>\<open>sm['title']\<close>; the log text itself is not modelled, the failures of the two reads are.
\<close>

definition log_skipped_movie :: "item \<Rightarrow> py_error + unit" where
  "log_skipped_movie sm =
     (case genres sm of
        Absent \<Rightarrow> Inl KeyError
      | Null \<Rightarrow> Inl TypeError
      | Val gs \<Rightarrow> (case title sm of Absent \<Rightarrow> Inl KeyError | _ \<Rightarrow> Inr ()))"

fun log_skipped :: "item list \<Rightarrow> py_error + unit" where
  "log_skipped [] = Inr ()"
| "log_skipped (sm # sms) =
     (case log_skipped_movie sm of Inl e \<Rightarrow> Inl e | Inr u \<Rightarrow> log_skipped sms)"

text \<open>
  The arithmetic of the runtime on floats: \<^verbatim>\<open>sum(...)\<close> of a sequence of numbers,
  \<^verbatim>\<open>x / n\<close> for a count \<open>n\<close>, and \<^verbatim>\<open>round(x, 2)\<close>.
\<close>

record arithmetic =
  float_sum :: "rat list \<Rightarrow> rat"
  true_div :: "rat \<Rightarrow> nat \<Rightarrow> rat"
  round_2 :: "rat \<Rightarrow> rat"

text \<open>
  The values \<^verbatim>\<open>sum\<close> receives from \<^verbatim>\<open>(m[k] for m in ...)\<close> and from
  \<^verbatim>\<open>(m.get(k, 0) for m in ...)\<close>. \<^verbatim>\<open>sum\<close> reads and adds them one after the other: the first
  key that is missing raises \<^verbatim>\<open>KeyError\<close>, the first \<^verbatim>\<open>None\<close> raises \<^verbatim>\<open>TypeError\<close> when it
  is added.
\<close>

fun values_index :: "'a field list \<Rightarrow> py_error + 'a list" where
  "values_index [] = Inr []"
| "values_index (Absent # fs) = Inl KeyError"
| "values_index (Null # fs) = Inl TypeError"
| "values_index (Val v # fs) =
     (case values_index fs of Inl e \<Rightarrow> Inl e | Inr vs \<Rightarrow> Inr (v # vs))"

fun values_get :: "('a::zero) field list \<Rightarrow> py_error + 'a list" where
  "values_get [] = Inr []"
| "values_get (Absent # fs) =
     (case values_get fs of Inl e \<Rightarrow> Inl e | Inr vs \<Rightarrow> Inr (0 # vs))"
| "values_get (Null # fs) = Inl TypeError"
| "values_get (Val v # fs) =
     (case values_get fs of Inl e \<Rightarrow> Inl e | Inr vs \<Rightarrow> Inr (v # vs))"

text \<open>
  \<^verbatim>\<open>sorted(xs, key=lambda x: x["rating"], reverse=True)\<close>. Python's sort is stable, and
  with \<^verbatim>\<open>reverse=True\<close> it still keeps equal keys in their original order: it sorts the
  reversed list and reverses the result. The key is read after \<^verbatim>\<open>sum(m["rating"] ...)\<close> has
  succeeded on the same list, so every rating is a number there.
\<close>

definition rating_key :: "item \<Rightarrow> rat" where
  "rating_key m = (case rating m of Val r \<Rightarrow> r | _ \<Rightarrow> 0)"

definition sorted_reverse :: "('a \<Rightarrow> rat) \<Rightarrow> 'a list \<Rightarrow> 'a list" where
  "sorted_reverse key xs = rev (sort_key key (rev xs))"

text \<open>The slice \<^verbatim>\<open>xs[:n]\<close>; a negative \<^verbatim>\<open>n\<close> counts from the end.\<close>

definition slice_to :: "int \<Rightarrow> 'a list \<Rightarrow> 'a list" where
  "slice_to n xs = (if 0 \<le> n then take (nat n) xs else take (length xs - nat (- n)) xs)"

text \<open>
  Lines 225 to 242: the record of one non-empty group. The two averages are computed by
  the arithmetic of the runtime; the vote counts are integers, whose sum is exact.
\<close>

definition genre_record ::
  "arithmetic \<Rightarrow> string \<Rightarrow> item list \<Rightarrow> int \<Rightarrow> py_error + genre_stats" where
  "genre_record ar genre genre_movies top_count =
     (case values_index (map rating genre_movies) of
        Inl e \<Rightarrow> Inl e
      | Inr ratings \<Rightarrow>
          (case values_get (map popularity genre_movies) of
             Inl e \<Rightarrow> Inl e
           | Inr popularities \<Rightarrow>
               (case values_get (map vote_count genre_movies) of
                  Inl e \<Rightarrow> Inl e
                | Inr votes \<Rightarrow>
                    Inr \<lparr> genre_name = genre,
                          average_rating =
                            round_2 ar (true_div ar (float_sum ar ratings) (length genre_movies)),
                          average_popularity =
                            round_2 ar (true_div ar (float_sum ar popularities) (length genre_movies)),
                          total_votes = sum_list votes,
                          movie_count = length genre_movies,
                          top_movies = slice_to top_count (sorted_reverse rating_key genre_movies) \<rparr>)))"

text \<open>Lines 221 to 242: the loop over \<^verbatim>\<open>stats.items()\<close>, in insertion order.\<close>

fun build_stats :: "arithmetic \<Rightarrow> int \<Rightarrow> groups \<Rightarrow> py_error + genre_stats list" where
  "build_stats ar top_count [] = Inr []"
| "build_stats ar top_count ((genre, genre_movies) # rest) =
     (if genre_movies = [] then build_stats ar top_count rest
      else
        (case genre_record ar genre genre_movies top_count of
           Inl e \<Rightarrow> Inl e
         | Inr s \<Rightarrow>
             (case build_stats ar top_count rest of Inl e \<Rightarrow> Inl e | Inr ss \<Rightarrow> Inr (s # ss))))"

definition calculate_stats :: "arithmetic \<Rightarrow> item list \<Rightarrow> int \<Rightarrow> py_error + genre_stats list" where
  "calculate_stats ar movies top_count =
     (case group_movies movies [] [] of
        Inl e \<Rightarrow> Inl e
      | Inr (stats, skipped_movies) \<Rightarrow>
          (case log_skipped skipped_movies of
             Inl e \<Rightarrow> Inl e
           | Inr u \<Rightarrow> build_stats ar top_count stats))"

section \<open>The fetchers\<close>

text \<open>
  One entry of the \<^verbatim>\<open>results\<close> array the catalog API returns. \<^verbatim>\<open>id\<close>, \<^verbatim>\<open>title\<close> and
  \<^verbatim>\<open>vote_average\<close> are read with \<^verbatim>\<open>m[...]\<close>: \<open>None\<close> is the missing key, which raises
  \<^verbatim>\<open>KeyError\<close>. The four fields read with \<^verbatim>\<open>m.get(...)\<close> give \<^verbatim>\<open>None\<close> for a missing key
  and for a null alike: \<open>None\<close> is either. \<^verbatim>\<open>genre_ids\<close> is read both ways, so it keeps the
  three states.
\<close>

record raw_movie =
  raw_id :: "int option"
  raw_title :: "string option"
  raw_vote_average :: "rat option"
  raw_genre_ids :: "int list field"
  raw_poster_path :: "string option"
  raw_release_date :: "string option"
  raw_popularity :: "rat option"
  raw_vote_count :: "int option"

text \<open>
  What \<^verbatim>\<open>requests.get\<close> returned for one URL: the status code and the \<^verbatim>\<open>results\<close> entry
  of the body (\<open>None\<close> when the body has no such key). The remote API is a parameter of the
  model, a function from the page number (and the genre id) to the response; every URL is
  requested at most once in a run.
\<close>

record response =
  status_code :: int
  results :: "raw_movie list option"

text \<open>\<^verbatim>\<open>response.json().get("results", [])\<close>\<close>

definition movies_on_page :: "response \<Rightarrow> raw_movie list" where
  "movies_on_page r = (case results r of None \<Rightarrow> [] | Some ms \<Rightarrow> ms)"

text \<open>
  \<^verbatim>\<open>genre_map\<close> is a dictionary from genre id to name, iterated in insertion order: an
  association list. \<^verbatim>\<open>[genre_map.get(gid, "Other") for gid in ...]\<close>:
\<close>

type_synonym genre_map = "(int \<times> string) list"

definition genre_map_get :: "genre_map \<Rightarrow> int \<Rightarrow> string" where
  "genre_map_get gm gid = (case map_of gm gid of None \<Rightarrow> ''Other'' | Some n \<Rightarrow> n)"

text \<open>
  Line 99, of \<^verbatim>\<open>get_popular_movies\<close>: \<^verbatim>\<open>m["genre_ids"]\<close> is read unguarded;
  line 171, of \<^verbatim>\<open>get_representative_movies\<close>: \<^verbatim>\<open>m.get("genre_ids")\<close>. An empty list and
  \<^verbatim>\<open>None\<close> are both false in the conditional expression.
\<close>

definition popular_genre_names :: "genre_map \<Rightarrow> raw_movie \<Rightarrow> py_error + string list" where
  "popular_genre_names gm m =
     (case raw_genre_ids m of
        Absent \<Rightarrow> Inl KeyError
      | Null \<Rightarrow> Inr [''Other'']
      | Val gids \<Rightarrow> Inr (if gids = [] then [''Other''] else map (genre_map_get gm) gids))"

definition representative_genre_names :: "genre_map \<Rightarrow> raw_movie \<Rightarrow> string list" where
  "representative_genre_names gm m =
     (case raw_genre_ids m of
        Absent \<Rightarrow> [''Other'']
      | Null \<Rightarrow> [''Other'']
      | Val gids \<Rightarrow> if gids = [] then [''Other''] else map (genre_map_get gm) gids)"

text \<open>What \<^verbatim>\<open>m.get(k)\<close> stores in the new dictionary: the key is always present.\<close>

definition stored :: "'a option \<Rightarrow> 'a field" where
  "stored v = (case v of None \<Rightarrow> Null | Some x \<Rightarrow> Val x)"

text \<open>The dictionary literal of lines 100 to 109 and 174 to 183.\<close>

definition make_item :: "raw_movie \<Rightarrow> string list \<Rightarrow> py_error + item" where
  "make_item m genre_names =
     (case raw_id m of
        None \<Rightarrow> Inl KeyError
      | Some i \<Rightarrow>
          (case raw_title m of
             None \<Rightarrow> Inl KeyError
           | Some t \<Rightarrow>
               (case raw_vote_average m of
                  None \<Rightarrow> Inl KeyError
                | Some v \<Rightarrow>
                    Inr \<lparr> item_id = i, title = Val t, rating = Val v, genres = Val genre_names,
                          poster_path = raw_poster_path m, release_date = raw_release_date m,
                          popularity = stored (raw_popularity m),
                          vote_count = stored (raw_vote_count m) \<rparr>)))"

text \<open>The three local variables both fetchers update.\<close>

record fetch_state =
  processed_movies :: "item list"
  seen_ids :: "int set"
  duplicates_count :: nat

definition initial_state :: fetch_state where
  "initial_state = \<lparr> processed_movies = [], seen_ids = {}, duplicates_count = 0 \<rparr>"

definition count_duplicate :: "fetch_state \<Rightarrow> fetch_state" where
  "count_duplicate st = st\<lparr> duplicates_count := duplicates_count st + 1 \<rparr>"

definition retain :: "int \<Rightarrow> item \<Rightarrow> fetch_state \<Rightarrow> fetch_state" where
  "retain i it st =
     st\<lparr> seen_ids := insert i (seen_ids st), processed_movies := processed_movies st @ [it] \<rparr>"

subsection \<open>\<^verbatim>\<open>get_popular_movies\<close>\<close>

text \<open>Lines 90 to 109: one entry of a page.\<close>

definition popular_entry :: "genre_map \<Rightarrow> fetch_state \<Rightarrow> raw_movie \<Rightarrow> py_error + fetch_state" where
  "popular_entry gm st m =
     (case raw_id m of
        None \<Rightarrow> Inl KeyError
      | Some i \<Rightarrow>
          if i \<in> seen_ids st then Inr (count_duplicate st)
          else
            (case popular_genre_names gm m of
               Inl e \<Rightarrow> Inl e
             | Inr genre_names \<Rightarrow>
                 (case make_item m genre_names of
                    Inl e \<Rightarrow> Inl e
                  | Inr it \<Rightarrow> Inr (retain i it st))))"

fun popular_entries :: "genre_map \<Rightarrow> fetch_state \<Rightarrow> raw_movie list \<Rightarrow> py_error + fetch_state" where
  "popular_entries gm st [] = Inr st"
| "popular_entries gm st (m # ms) =
     (case popular_entry gm st m of Inl e \<Rightarrow> Inl e | Inr st' \<Rightarrow> popular_entries gm st' ms)"

text \<open>Lines 84 to 112: the loop over the pages; a failed request is logged and skipped.\<close>

fun popular_pages ::
  "genre_map \<Rightarrow> (int \<Rightarrow> response) \<Rightarrow> fetch_state \<Rightarrow> int list \<Rightarrow> py_error + fetch_state" where
  "popular_pages gm api st [] = Inr st"
| "popular_pages gm api st (page # later) =
     (if status_code (api page) = 200 then
        (case popular_entries gm st (movies_on_page (api page)) of
           Inl e \<Rightarrow> Inl e
         | Inr st' \<Rightarrow> popular_pages gm api st' later)
      else popular_pages gm api st later)"

text \<open>The state when the loop over \<^verbatim>\<open>range(1, pages + 1)\<close> is over, and the value returned.\<close>

definition popular_run :: "genre_map \<Rightarrow> (int \<Rightarrow> response) \<Rightarrow> int \<Rightarrow> py_error + fetch_state" where
  "popular_run gm api pages = popular_pages gm api initial_state [1..pages]"

definition get_popular_movies :: "genre_map \<Rightarrow> (int \<Rightarrow> response) \<Rightarrow> int \<Rightarrow> py_error + item list" where
  "get_popular_movies gm api pages =
     (case popular_run gm api pages of Inl e \<Rightarrow> Inl e | Inr st \<Rightarrow> Inr (processed_movies st))"

subsection \<open>\<^verbatim>\<open>get_representative_movies\<close>\<close>

text \<open>
  Lines 161 to 183: one entry of a page, once the limit check of line 158 has passed. The
  second component is \<^verbatim>\<open>movies_collected_for_this_genre\<close>.
\<close>

definition representative_entry ::
  "genre_map \<Rightarrow> fetch_state \<times> int \<Rightarrow> raw_movie \<Rightarrow> py_error + (fetch_state \<times> int)" where
  "representative_entry gm sc m =
     (case raw_id m of
        None \<Rightarrow> Inl KeyError
      | Some i \<Rightarrow>
          if i \<in> seen_ids (fst sc) then Inr (count_duplicate (fst sc), snd sc + 1)
          else
            (case make_item m (representative_genre_names gm m) of
               Inl e \<Rightarrow> Inl e
             | Inr it \<Rightarrow> Inr (retain i it (fst sc), snd sc + 1)))"

text \<open>Lines 156 to 183: the entries of one page, with the limit checked before each.\<close>

fun representative_entries ::
  "genre_map \<Rightarrow> int \<Rightarrow> fetch_state \<times> int \<Rightarrow> raw_movie list \<Rightarrow> py_error + (fetch_state \<times> int)" where
  "representative_entries gm target sc [] = Inr sc"
| "representative_entries gm target sc (m # ms) =
     (if target \<le> snd sc then Inr sc
      else
        (case representative_entry gm sc m of
           Inl e \<Rightarrow> Inl e
         | Inr sc' \<Rightarrow> representative_entries gm target sc' ms))"

text \<open>
  Lines 140 to 186: the pages of one genre. The loop is left when the limit is reached,
  when a page is empty and when a request fails.
\<close>

fun representative_pages ::
  "genre_map \<Rightarrow> (int \<Rightarrow> int \<Rightarrow> response) \<Rightarrow> int \<Rightarrow> int \<Rightarrow> fetch_state \<times> int \<Rightarrow> int list
     \<Rightarrow> py_error + fetch_state" where
  "representative_pages gm api target genre_id sc [] = Inr (fst sc)"
| "representative_pages gm api target genre_id sc (page # later) =
     (if target \<le> snd sc then Inr (fst sc)
      else if status_code (api genre_id page) = 200 then
        (if movies_on_page (api genre_id page) = [] then Inr (fst sc)
         else
           (case representative_entries gm target sc (movies_on_page (api genre_id page)) of
              Inl e \<Rightarrow> Inl e
            | Inr sc' \<Rightarrow> representative_pages gm api target genre_id sc' later))
      else Inr (fst sc))"

text \<open>Line 134: \<^verbatim>\<open>math.ceil(target_per_genre / 20)\<close>.\<close>

definition pages_to_fetch :: "int \<Rightarrow> int" where
  "pages_to_fetch target = \<lceil>rat_of_int target / 20\<rceil>"

text \<open>
  Lines 136 to 186: the loop over \<^verbatim>\<open>genre_map.items()\<close>. The first argument is the whole
  map, used to resolve names; the last one is what is left to iterate.
\<close>

fun representative_genres ::
  "genre_map \<Rightarrow> (int \<Rightarrow> int \<Rightarrow> response) \<Rightarrow> int \<Rightarrow> fetch_state \<Rightarrow> genre_map
     \<Rightarrow> py_error + fetch_state" where
  "representative_genres gm api target st [] = Inr st"
| "representative_genres gm api target st ((genre_id, name) # rest) =
     (case representative_pages gm api target genre_id (st, 0) [1..pages_to_fetch target] of
        Inl e \<Rightarrow> Inl e
      | Inr st' \<Rightarrow> representative_genres gm api target st' rest)"

definition representative_run ::
  "genre_map \<Rightarrow> (int \<Rightarrow> int \<Rightarrow> response) \<Rightarrow> int \<Rightarrow> py_error + fetch_state" where
  "representative_run gm api target = representative_genres gm api target initial_state gm"

definition get_representative_movies ::
  "genre_map \<Rightarrow> (int \<Rightarrow> int \<Rightarrow> response) \<Rightarrow> int \<Rightarrow> py_error + item list" where
  "get_representative_movies gm api target =
     (case representative_run gm api target of
        Inl e \<Rightarrow> Inl e
      | Inr st \<Rightarrow> Inr (processed_movies st))"

section \<open>Vocabulary of the properties\<close>

text \<open>
  A movie passes the test of line 205 when its vote count and its rating are both positive
  numbers; \<open>without_rating\<close> says, in the words of the specification, that the vote count
  or the rating is at most zero, a missing key counting as zero.
\<close>

definition rated :: "item \<Rightarrow> bool" where
  "rated m = (has_rating m = Inr True)"

definition without_rating :: "item \<Rightarrow> bool" where
  "without_rating m =
     ((case vote_count m of Absent \<Rightarrow> True | Null \<Rightarrow> False | Val v \<Rightarrow> v \<le> 0) \<or>
      (case rating m of Absent \<Rightarrow> True | Null \<Rightarrow> False | Val r \<Rightarrow> r \<le> 0))"

definition genres_of :: "item \<Rightarrow> string list" where
  "genres_of m = (case genres m of Val gs \<Rightarrow> gs | _ \<Rightarrow> [])"

definition field_value :: "('a::zero) field \<Rightarrow> 'a" where
  "field_value f = (case f of Val v \<Rightarrow> v | _ \<Rightarrow> 0)"

text \<open>
  The appends \<^verbatim>\<open>stats[genre].append(m)\<close> of a run, in the order they happen: one for every
  rated movie and every entry of its genre list. The group of a genre is what was appended
  under its name, and \<open>rated_genres\<close> are the names in the order of the appends.
\<close>

definition memberships :: "item list \<Rightarrow> (string \<times> item) list" where
  "memberships movies = concat (map (\<lambda>m. map (\<lambda>g. (g, m)) (genres_of m)) (filter rated movies))"

definition genre_group :: "string \<Rightarrow> item list \<Rightarrow> item list" where
  "genre_group g movies = map snd (filter (\<lambda>p. fst p = g) (memberships movies))"

definition rated_genres :: "item list \<Rightarrow> string list" where
  "rated_genres movies = concat (map genres_of (filter rated movies))"

text \<open>The elements of a list in the order of their first occurrence.\<close>

fun first_seen :: "'a list \<Rightarrow> 'a list" where
  "first_seen [] = []"
| "first_seen (x # xs) = x # removeAll x (first_seen xs)"

definition append_all :: "groups \<Rightarrow> (string \<times> item) list \<Rightarrow> groups" where
  "append_all stats ps = foldl (\<lambda>s p. stats_append s (fst p) (snd p)) stats ps"

definition regroup :: "(string \<times> item) list \<Rightarrow> groups" where
  "regroup ps = map (\<lambda>g. (g, map snd (filter (\<lambda>p. fst p = g) ps))) (first_seen (map fst ps))"

text \<open>
  The two fetchers keep \<^verbatim>\<open>seen_ids\<close> and \<^verbatim>\<open>processed_movies\<close> in step: the ids seen are the
  ids of the movies kept, and no two movies kept share an id. A later state extends an
  earlier one when it has kept the same movies first and has lost no id and no count.
\<close>

definition consistent :: "fetch_state \<Rightarrow> bool" where
  "consistent st =
     (seen_ids st = item_id ` set (processed_movies st) \<and> distinct (map item_id (processed_movies st)))"

definition extends :: "fetch_state \<Rightarrow> fetch_state \<Rightarrow> bool" where
  "extends st st' =
     (prefix (processed_movies st) (processed_movies st') \<and> seen_ids st \<subseteq> seen_ids st' \<and>
      duplicates_count st \<le> duplicates_count st')"

text \<open>An entry that has the three keys read with \<^verbatim>\<open>m[...]\<close> by both fetchers.\<close>

definition complete :: "raw_movie \<Rightarrow> bool" where
  "complete m = (raw_id m \<noteq> None \<and> raw_title m \<noteq> None \<and> raw_vote_average m \<noteq> None)"

section \<open>Double precision\<close>

text \<open>
  An instance of the arithmetic, for the examples: IEEE 754 double precision with rounding
  to the nearest double, a tie to the even one, on numbers in the normal range. A nonzero
  number with binary exponent \<open>e\<close> is scaled by \<open>2^(52 - e)\<close>, which brings it between
  \<open>2^52\<close> and \<open>2^53\<close>, rounded to an integer there and scaled back. The sum adds from left
  to right, starting from zero (a runtime that adds with a correction term returns the same
  sums on the examples below, where at most one addition rounds); \<^verbatim>\<open>round(x, 2)\<close> rounds
  the number itself to the nearest hundredth, a tie to the even one, and returns the double
  nearest to that.
\<close>

definition round_half_even :: "rat \<Rightarrow> int" where
  "round_half_even y =
     (let f = \<lfloor>y\<rfloor>; d = y - of_int f
      in if d < 1 / 2 then f else if 1 / 2 < d then f + 1 else if even f then f else f + 1)"

function bit_length :: "int \<Rightarrow> nat" where
  "bit_length n = (if n \<le> 0 then 0 else Suc (bit_length (n div 2)))"
  by pat_completeness auto
termination
  by (relation "measure nat") auto

declare bit_length.simps [simp del]

text \<open>The \<open>e\<close> with \<open>2^e \<le> a < 2^(e + 1)\<close>, for a positive \<open>a\<close>.\<close>

definition exponent :: "rat \<Rightarrow> int" where
  "exponent a =
     (if 1 \<le> a then int (bit_length \<lfloor>a\<rfloor>) - 1 else - int (bit_length (\<lceil>1 / a\<rceil> - 1)))"

definition to_double :: "rat \<Rightarrow> rat" where
  "to_double x =
     (if x = 0 then 0
      else
        (let e = exponent \<bar>x\<bar> in
         if e \<le> 52
         then sgn x * of_int (round_half_even (\<bar>x\<bar> * 2 ^ nat (52 - e))) / 2 ^ nat (52 - e)
         else sgn x * of_int (round_half_even (\<bar>x\<bar> / 2 ^ nat (e - 52))) * 2 ^ nat (e - 52)))"

definition double_arithmetic :: arithmetic where
  "double_arithmetic =
     \<lparr> float_sum = foldl (\<lambda>acc v. to_double (acc + v)) 0,
       true_div = (\<lambda>x n. to_double (x / of_nat n)),
       round_2 = (\<lambda>x. to_double (of_int (round_half_even (x * 100)) / 100)) \<rparr>"

section \<open>Example inputs\<close>

definition movie :: "int \<Rightarrow> rat \<Rightarrow> int \<Rightarrow> string list \<Rightarrow> item" where
  "movie i r v gs =
     \<lparr> item_id = i, title = Val ''Movie'', rating = Val r, genres = Val gs, poster_path = None,
       release_date = None, popularity = Val 3, vote_count = Val v \<rparr>"

text \<open>Two rated movies and one with neither votes nor rating, all of one genre.\<close>

definition scenario_movies :: "item list" where
  "scenario_movies = [movie 1 8 10 [''Action''], movie 2 6 5 [''Action''], movie 3 0 0 [''Action'']]"

definition scenario_stats :: "genre_stats list" where
  "scenario_stats =
     [\<lparr> genre_name = ''Action'', average_rating = 7, average_popularity = 3, total_votes = 15,
        movie_count = 2, top_movies = [movie 1 8 10 [''Action''], movie 2 6 5 [''Action'']] \<rparr>]"

text \<open>Four movies with two ratings, each rating shared by two of them.\<close>

definition tie_movies :: "item list" where
  "tie_movies =
     [movie 1 7 10 [''Action''], movie 2 9 10 [''Action''], movie 3 7 10 [''Action''],
      movie 4 9 10 [''Action'']]"

definition tie_top :: "item list" where
  "tie_top = [movie 2 9 10 [''Action''], movie 4 9 10 [''Action''], movie 1 7 10 [''Action'']]"

definition tie_stats :: genre_stats where
  "tie_stats =
     \<lparr> genre_name = ''Action'', average_rating = 8, average_popularity = 3, total_votes = 40,
       movie_count = 4, top_movies = tie_top \<rparr>"

text \<open>A movie whose genre list names one genre twice, and the entry it comes from.\<close>

definition twice_other :: item where
  "twice_other = movie 5 8 10 [''Other'', ''Other'']"

definition twice_other_stats :: genre_stats where
  "twice_other_stats =
     \<lparr> genre_name = ''Other'', average_rating = 8, average_popularity = 3, total_votes = 20,
       movie_count = 2, top_movies = [twice_other, twice_other] \<rparr>"

definition unresolved_entry :: raw_movie where
  "unresolved_entry =
     \<lparr> raw_id = Some 5, raw_title = Some ''Movie'', raw_vote_average = Some 8,
       raw_genre_ids = Val [998, 999], raw_poster_path = None, raw_release_date = None,
       raw_popularity = Some 3, raw_vote_count = Some 10 \<rparr>"

text \<open>Movies of several genres; the first one has no rating, and no other is a western.\<close>

definition order_movies :: "item list" where
  "order_movies =
     [movie 1 0 0 [''Western''], movie 2 6 5 [''Drama'', ''Action''], movie 3 8 10 [''Action''],
      movie 4 7 3 [''Comedy'', ''Drama'']]"

text \<open>An entry of the API with a given id and genre id list, and the movie made from it.\<close>

definition entry :: "int \<Rightarrow> int list field \<Rightarrow> raw_movie" where
  "entry i gids =
     \<lparr> raw_id = Some i, raw_title = Some ''Movie'', raw_vote_average = Some 7,
       raw_genre_ids = gids, raw_poster_path = None, raw_release_date = None,
       raw_popularity = Some 3, raw_vote_count = Some 4 \<rparr>"

definition fetched :: "int \<Rightarrow> string list \<Rightarrow> item" where
  "fetched i gs =
     \<lparr> item_id = i, title = Val ''Movie'', rating = Val 7, genres = Val gs, poster_path = None,
       release_date = None, popularity = Val 3, vote_count = Val 4 \<rparr>"

definition two_genres :: genre_map where
  "two_genres = [(28, ''Action''), (35, ''Comedy'')]"

definition ok_page :: "raw_movie list \<Rightarrow> response" where
  "ok_page ms = \<lparr> status_code = 200, results = Some ms \<rparr>"

definition failed_page :: response where
  "failed_page = \<lparr> status_code = 404, results = None \<rparr>"

text \<open>
  Movie 7 is an action movie and a comedy: the first page of either genre returns it, the
  comedy page returns movie 8 after it, and every later page fails.
\<close>

definition shared_api :: "int \<Rightarrow> int \<Rightarrow> response" where
  "shared_api genre_id page =
     (if page = 1 then
        (if genre_id = 28 then ok_page [entry 7 (Val [28, 35])]
         else ok_page [entry 7 (Val [28, 35]), entry 8 (Val [35])])
      else failed_page)"

definition after_action :: fetch_state where
  "after_action =
     \<lparr> processed_movies = [fetched 7 [''Action'', ''Comedy'']], seen_ids = {7}, duplicates_count = 0 \<rparr>"

definition after_comedy :: fetch_state where
  "after_comedy =
     \<lparr> processed_movies = [fetched 7 [''Action'', ''Comedy'']], seen_ids = {7}, duplicates_count = 1 \<rparr>"

text \<open>Pages with one entry, with the same entry twice, and a listing whose second page fails.\<close>

definition single_page :: "int \<Rightarrow> response" where
  "single_page page = ok_page [entry 7 (Val [28])]"

definition doubled_page :: "int \<Rightarrow> response" where
  "doubled_page page = ok_page [entry 7 (Val [28]), entry 7 (Val [28])]"

definition flaky_api :: "int \<Rightarrow> response" where
  "flaky_api page = (if page = 2 then failed_page else ok_page [entry page (Val [28])])"

definition after_first :: fetch_state where
  "after_first =
     \<lparr> processed_movies = [fetched 1 [''Action'']], seen_ids = {1}, duplicates_count = 0 \<rparr>"

text \<open>Pages whose entry lacks \<^verbatim>\<open>popularity\<close>, \<^verbatim>\<open>vote_count\<close> or \<^verbatim>\<open>genre_ids\<close>.\<close>

definition no_popularity_api :: "int \<Rightarrow> response" where
  "no_popularity_api page = ok_page [(entry 7 (Val [28]))\<lparr> raw_popularity := None \<rparr>]"

definition no_votes_api :: "int \<Rightarrow> response" where
  "no_votes_api page = ok_page [(entry 7 (Val [28]))\<lparr> raw_vote_count := None \<rparr>]"

definition no_genre_ids_api :: "int \<Rightarrow> response" where
  "no_genre_ids_api page = ok_page [entry 9 Absent]"

text \<open>
  Movies whose ratings are not whole numbers: \<^verbatim>\<open>5.05\<close> is the double nearest to
  \<open>101/20\<close>. In the second list the first movie names its genre twice.
\<close>

definition close_movies :: "item list" where
  "close_movies = [movie 1 5 10 [''Action''], movie 2 (to_double (101 / 20)) 10 [''Action'']]"

definition close_stats :: genre_stats where
  "close_stats =
     \<lparr> genre_name = ''Action'', average_rating = to_double (503 / 100), average_popularity = 3,
       total_votes = 20, movie_count = 2,
       top_movies = [movie 2 (to_double (101 / 20)) 10 [''Action''], movie 1 5 10 [''Action'']] \<rparr>"

definition rated_twice :: item where
  "rated_twice = movie 5 (to_double (101 / 20)) 10 [''Other'', ''Other'']"

definition rated_once :: item where
  "rated_once = movie 6 4 4 [''Other'']"

definition uneven_movies :: "item list" where
  "uneven_movies = [rated_twice, rated_once]"

definition uneven_stats :: genre_stats where
  "uneven_stats =
     \<lparr> genre_name = ''Other'', average_rating = to_double (47 / 10), average_popularity = 3,
       total_votes = 24, movie_count = 3, top_movies = [rated_twice, rated_twice, rated_once] \<rparr>"

section \<open>The groups \<^verbatim>\<open>calculate_stats\<close> builds\<close>

lemma set_first_seen: "set (first_seen xs) = set xs"
  by (induction xs) auto

lemma distinct_first_seen: "distinct (first_seen xs)"
  by (induction xs) (auto simp: distinct_removeAll)

lemma first_seen_snoc:
  "first_seen (xs @ [x]) = (if x \<in> set xs then first_seen xs else first_seen xs @ [x])"
  by (induction xs) (auto simp: set_first_seen)

lemma stats_append_map:
  "distinct ks \<Longrightarrow>
   stats_append (map (\<lambda>k. (k, G k)) ks) g m =
     (if g \<in> set ks then map (\<lambda>k. (k, if k = g then G k @ [m] else G k)) ks
      else map (\<lambda>k. (k, G k)) ks @ [(g, [m])])"
  by (induction ks) auto

lemma regroup_snoc: "stats_append (regroup ps) g m = regroup (ps @ [(g, m)])"
proof (cases "g \<in> fst ` set ps")
  case True
  then show ?thesis
    unfolding regroup_def
    by (simp add: stats_append_map distinct_first_seen set_first_seen first_seen_snoc)
next
  case False
  then have "filter (\<lambda>p. fst p = g) ps = []"
    by (auto simp: filter_empty_conv)
  with False show ?thesis
    unfolding regroup_def
    by (auto simp: stats_append_map distinct_first_seen set_first_seen first_seen_snoc)
qed

lemma append_all_regroup: "append_all [] ps = regroup ps"
proof (induction ps rule: rev_induct)
  case Nil
  then show ?case by (simp add: append_all_def regroup_def)
next
  case (snoc p ps)
  then show ?case
    by (cases p) (simp add: append_all_def regroup_snoc)
qed

lemma regroup_nonempty: "\<forall>p \<in> set (regroup ps). snd p \<noteq> []"
  by (auto simp: regroup_def set_first_seen filter_empty_conv)

lemma memberships_Cons:
  "memberships (m # ms) = (if rated m then map (\<lambda>g. (g, m)) (genres_of m) else []) @ memberships ms"
  by (simp add: memberships_def)

lemma map_fst_memberships: "map fst (memberships movies) = rated_genres movies"
  by (induction movies) (simp_all add: memberships_def rated_genres_def comp_def)

lemma set_genre_group:
  "m \<in> set (genre_group g movies) \<Longrightarrow> m \<in> set movies \<and> rated m \<and> g \<in> set (genres_of m)"
  by (auto simp: genre_group_def memberships_def)

lemma genre_group_Cons:
  "genre_group g (m # ms) =
     (if rated m then replicate (count_list (genres_of m) g) m else []) @ genre_group g ms"
proof -
  have "map snd (filter (\<lambda>p. fst p = g) (map (\<lambda>g'. (g', m)) gs)) = replicate (count_list gs g) m" for gs
    by (induction gs) auto
  then show ?thesis
    by (simp add: genre_group_def memberships_Cons)
qed

lemma count_list_replicate: "count_list (replicate n x) y = (if x = y then n else 0)"
  by (induction n) auto

lemma count_list_genre_group:
  "count_list (genre_group g movies) m =
     (if rated m then count_list movies m * count_list (genres_of m) g else 0)"
proof (induction movies)
  case Nil
  then show ?case by (simp add: genre_group_def memberships_def)
next
  case (Cons a movies)
  then show ?case
    by (simp add: genre_group_Cons count_list_replicate)
qed

lemma rated_fields: "rated m \<Longrightarrow> \<exists>r v. rating m = Val r \<and> 0 < r \<and> vote_count m = Val v \<and> 0 < v"
  by (auto simp: rated_def has_rating_def split: field.splits if_splits)

lemma rated_rating_key: "rated m \<Longrightarrow> rating m = Val (rating_key m)"
  by (auto simp: rating_key_def dest: rated_fields)

lemma has_rating_without: "has_rating m = Inr b \<Longrightarrow> b = (\<not> without_rating m)"
  by (auto simp: has_rating_def without_rating_def split: field.splits if_splits)

text \<open>The first loop, when it raises nothing, has made exactly the appends of \<open>memberships\<close>.\<close>

lemma group_movies_Inr:
  "group_movies ms stats skipped = Inr (stats', skipped') \<Longrightarrow>
   stats' = append_all stats (memberships ms) \<and> skipped' = skipped @ filter (\<lambda>m. \<not> rated m) ms"
proof (induction ms arbitrary: stats skipped)
  case Nil
  then show ?case by (simp add: append_all_def memberships_def)
next
  case (Cons m ms)
  show ?case
  proof (cases "has_rating m")
    case (Inl e)
    with Cons.prems show ?thesis by simp
  next
    case (Inr ok)
    show ?thesis
    proof (cases ok)
      case True
      with Inr Cons.prems obtain gs where gs: "genres m = Val gs"
        by (cases "genres m") auto
      from True Inr have r: "rated m" by (simp add: rated_def)
      from Cons.prems Inr True gs
      have "group_movies ms (foldl (\<lambda>s g. stats_append s g m) stats gs) skipped = Inr (stats', skipped')"
        by simp
      from Cons.IH [OF this] r gs show ?thesis
        by (simp add: memberships_Cons genres_of_def append_all_def foldl_map)
    next
      case False
      from False Inr have r: "\<not> rated m" by (simp add: rated_def)
      from Cons.prems Inr False
      have "group_movies ms stats (skipped @ [m]) = Inr (stats', skipped')" by simp
      from Cons.IH [OF this] r show ?thesis
        by (simp add: memberships_Cons)
    qed
  qed
qed

lemma group_movies_has_rating:
  "group_movies ms stats skipped = Inr r \<Longrightarrow> m \<in> set ms \<Longrightarrow> \<exists>b. has_rating m = Inr b"
proof (induction ms arbitrary: stats skipped)
  case Nil
  then show ?case by simp
next
  case (Cons a ms)
  then show ?case
    by (fastforce split: sum.splits if_splits field.splits)
qed

lemma group_movies_filter:
  "group_movies ms stats skipped = Inr (stats', skipped') \<Longrightarrow>
   group_movies (filter rated ms) stats sk = Inr (stats', sk)"
proof (induction ms arbitrary: stats skipped)
  case Nil
  then show ?case by simp
next
  case (Cons a ms)
  then show ?case
    by (cases "has_rating a") (auto simp: rated_def split: if_splits field.splits)
qed

lemma build_stats_Inr:
  "build_stats ar tc grps = Inr ss \<Longrightarrow> \<forall>p \<in> set grps. snd p \<noteq> [] \<Longrightarrow>
   map Inr ss = map (\<lambda>p. genre_record ar (fst p) (snd p) tc) grps"
proof (induction grps arbitrary: ss)
  case Nil
  then show ?case by simp
next
  case (Cons p grps)
  obtain g ms where p: "p = (g, ms)" by (cases p)
  with Cons.prems have ne: "ms \<noteq> []" by simp
  from Cons.prems p ne obtain s ss' where
    s: "genre_record ar g ms tc = Inr s" and ss': "build_stats ar tc grps = Inr ss'" and "ss = s # ss'"
    by (auto split: sum.splits)
  with Cons.IH [OF ss'] Cons.prems(2) p show ?case by simp
qed

lemma calculate_stats_groups:
  assumes "calculate_stats ar movies tc = Inr stats"
  shows "group_movies movies [] [] = Inr (regroup (memberships movies), filter (\<lambda>m. \<not> rated m) movies)"
    and "log_skipped (filter (\<lambda>m. \<not> rated m) movies) = Inr ()"
    and "build_stats ar tc (regroup (memberships movies)) = Inr stats"
proof -
  from assms obtain grps skipped where
    g: "group_movies movies [] [] = Inr (grps, skipped)"
    and l: "log_skipped skipped = Inr ()" and b: "build_stats ar tc grps = Inr stats"
    by (auto simp: calculate_stats_def split: sum.splits prod.splits)
  from group_movies_Inr [OF g] have
    "grps = regroup (memberships movies)" "skipped = filter (\<lambda>m. \<not> rated m) movies"
    by (simp_all add: append_all_regroup)
  with g l b show
    "group_movies movies [] [] = Inr (regroup (memberships movies), filter (\<lambda>m. \<not> rated m) movies)"
    "log_skipped (filter (\<lambda>m. \<not> rated m) movies) = Inr ()"
    "build_stats ar tc (regroup (memberships movies)) = Inr stats"
    by simp_all
qed

text \<open>
  The output of a run that raises nothing: one record for every genre of a rated movie, in
  the order of first occurrence, each computed from the group of that genre.
\<close>

lemma calculate_stats_records:
  assumes "calculate_stats ar movies tc = Inr stats"
  shows "map Inr stats =
         map (\<lambda>g. genre_record ar g (genre_group g movies) tc) (first_seen (rated_genres movies))"
proof -
  from build_stats_Inr [OF calculate_stats_groups(3) [OF assms] regroup_nonempty]
  show ?thesis
    by (simp add: regroup_def comp_def genre_group_def map_fst_memberships)
qed

lemma genre_record_fields:
  assumes "genre_record ar g ms tc = Inr s"
  shows "genre_name s = g" and "movie_count s = length ms"
    and "top_movies s = slice_to tc (sorted_reverse rating_key ms)"
  using assms by (auto simp: genre_record_def split: sum.splits)

lemma stats_member:
  assumes "calculate_stats ar movies tc = Inr stats" and "s \<in> set stats"
  shows "genre_record ar (genre_name s) (genre_group (genre_name s) movies) tc = Inr s"
    and "genre_name s \<in> set (rated_genres movies)"
proof -
  from assms(2) have "Inr s \<in> set (map Inr stats :: (py_error + genre_stats) list)" by simp
  then obtain g where g: "g \<in> set (rated_genres movies)"
    and r: "genre_record ar g (genre_group g movies) tc = Inr s"
    unfolding calculate_stats_records [OF assms(1)] by (auto simp: set_first_seen)
  from genre_record_fields(1) [OF r] have "genre_name s = g" .
  with g r show "genre_record ar (genre_name s) (genre_group (genre_name s) movies) tc = Inr s"
    and "genre_name s \<in> set (rated_genres movies)" by simp_all
qed

section \<open>The sort and the slice\<close>

lemma sorted_reverse_descending: "sorted_wrt (\<lambda>a b. key b \<le> key a) (sorted_reverse key xs)"
proof -
  have "sorted (map key (sort_key key (rev xs)))" by simp
  then have "sorted_wrt (\<lambda>a b. key a \<le> key b) (sort_key key (rev xs))"
    by (simp only: sorted_map)
  then show ?thesis
    by (simp add: sorted_reverse_def sorted_wrt_rev)
qed

lemma sorted_reverse_stable:
  "filter (\<lambda>x. key x = k) (sorted_reverse key xs) = filter (\<lambda>x. key x = k) xs"
  by (simp add: sorted_reverse_def rev_filter [symmetric] sort_key_stable)

lemma set_sorted_reverse: "set (sorted_reverse key xs) = set xs"
  by (simp add: sorted_reverse_def)

lemma length_sorted_reverse: "length (sorted_reverse key xs) = length xs"
  by (simp add: sorted_reverse_def)

lemma slice_to_take: "\<exists>k. slice_to n xs = take k xs"
  by (cases "0 \<le> n") (auto simp: slice_to_def)

lemma prefix_filter_take: "prefix (filter P (take n xs)) (filter P xs)"
proof -
  have "filter P xs = filter P (take n xs) @ filter P (drop n xs)"
    by (metis append_take_drop_id filter_append)
  then show ?thesis by (simp add: prefix_def)
qed

section \<open>The sums and the averages\<close>

lemma values_get_Inr: "values_get fs = Inr vs \<Longrightarrow> vs = map field_value fs"
  by (induction fs arbitrary: vs rule: values_get.induct)
    (auto simp: field_value_def split: sum.splits)

lemma values_index_Inr: "values_index fs = Inr vs \<Longrightarrow> vs = map field_value fs"
  by (induction fs arbitrary: vs rule: values_index.induct)
    (auto simp: field_value_def split: sum.splits)

lemma genre_record_sums:
  assumes "genre_record ar g ms tc = Inr s"
  shows "total_votes s = sum_list (map (\<lambda>m. field_value (vote_count m)) ms)"
    and "average_rating s =
           round_2 ar (true_div ar (float_sum ar (map (\<lambda>m. field_value (rating m)) ms)) (length ms))"
    and "average_popularity s =
           round_2 ar (true_div ar (float_sum ar (map (\<lambda>m. field_value (popularity m)) ms)) (length ms))"
  using assms
  by (auto simp: genre_record_def comp_def split: sum.splits dest!: values_get_Inr values_index_Inr)

section \<open>Evaluations of the examples\<close>

lemma order_eval:
  "map_sum id (map genre_name) (calculate_stats double_arithmetic order_movies 10) =
     Inr [''Drama'', ''Action'', ''Comedy'']"
  by code_simp

lemma close_eval: "calculate_stats double_arithmetic close_movies 10 = Inr [close_stats]"
  by code_simp

lemma uneven_eval: "calculate_stats double_arithmetic uneven_movies 10 = Inr [uneven_stats]"
  by code_simp

lemma uneven_group: "genre_group ''Other'' uneven_movies = [rated_twice, rated_twice, rated_once]"
  by code_simp

lemma twice_eval: "calculate_stats double_arithmetic [twice_other] 10 = Inr [twice_other_stats]"
  by code_simp

lemma twice_group: "genre_group ''Other'' [twice_other] = [twice_other, twice_other]"
  by code_simp

lemma twice_rated: "rated twice_other"
  by code_simp

lemma unresolved_names: "popular_genre_names [] unresolved_entry = Inr [''Other'', ''Other'']"
  by code_simp

lemma scenario_eval: "calculate_stats double_arithmetic scenario_movies 10 = Inr scenario_stats"
  by code_simp

lemma tie_eval: "calculate_stats double_arithmetic tie_movies 3 = Inr [tie_stats]"
  by code_simp

lemma tie_group: "genre_group ''Action'' tie_movies = tie_movies"
  by code_simp

section \<open>Claims about \<^verbatim>\<open>calculate_stats\<close>\<close>

text \<open>
  C3. A movie whose vote count or rating is at most zero is left out of every group before
  anything is computed: when \<^verbatim>\<open>calculate_stats\<close> returns, it returns what it returns on the
  list without these movies, and none of them is among the top movies of a record.
\<close>

theorem C3_unrated_excluded:
  assumes "calculate_stats ar movies top_count = Inr stats"
  shows "calculate_stats ar (filter (\<lambda>m. \<not> without_rating m) movies) top_count = Inr stats \<and>
         (\<forall>s \<in> set stats. \<forall>m \<in> set (top_movies s). \<not> without_rating m)"
proof -
  note g = calculate_stats_groups [OF assms]
  have eq: "filter (\<lambda>m. \<not> without_rating m) movies = filter rated movies"
  proof (rule filter_cong [OF refl])
    fix m assume "m \<in> set movies"
    from group_movies_has_rating [OF g(1) this] obtain b where b: "has_rating m = Inr b" ..
    from has_rating_without [OF b] b show "(\<not> without_rating m) = rated m"
      by (auto simp: rated_def)
  qed
  from group_movies_filter [OF g(1), of "[]"] g(3)
  have 1: "calculate_stats ar (filter rated movies) top_count = Inr stats"
    by (simp add: calculate_stats_def)
  have 2: "\<not> without_rating m" if s: "s \<in> set stats" and m: "m \<in> set (top_movies s)" for s m
  proof -
    note r = stats_member(1) [OF assms s]
    from m genre_record_fields(3) [OF r]
    have "m \<in> set (genre_group (genre_name s) movies)"
      by (auto simp: slice_to_def sorted_reverse_def split: if_splits dest: in_set_takeD)
    from set_genre_group [OF this] have "rated m" by simp
    then show ?thesis
      using has_rating_without [of m True] by (simp add: rated_def)
  qed
  from 1 2 eq show ?thesis by simp
qed

theorem C3_unrated_excluded_witness:
  "calculate_stats double_arithmetic scenario_movies 10 = Inr scenario_stats \<and>
   without_rating (movie 3 0 0 [''Action'']) \<and>
   calculate_stats double_arithmetic [movie 1 8 10 [''Action''], movie 2 6 5 [''Action'']] 10 = Inr scenario_stats"
proof -
  have w: "filter (\<lambda>m. \<not> without_rating m) scenario_movies =
           [movie 1 8 10 [''Action''], movie 2 6 5 [''Action'']]"
    by (simp add: scenario_movies_def without_rating_def movie_def)
  have u: "without_rating (movie 3 0 0 [''Action''])"
    by (simp add: without_rating_def movie_def)
  from C3_unrated_excluded [OF scenario_eval] w u scenario_eval show ?thesis
    by simp
qed

text \<open>
  C4. In every record of the output the top movies are in descending order of rating, and
  the movies of any one rating among them are the first movies of that rating in the
  group, in the order of the group, which is the order of the input list. For a top count
  that is not negative they are as many as the smaller of the top count and the movie
  count.
\<close>

theorem C4_top_movies:
  assumes "calculate_stats ar movies top_count = Inr stats" and "s \<in> set stats"
  shows "(0 \<le> top_count \<longrightarrow> int (length (top_movies s)) = min top_count (int (movie_count s))) \<and>
         sorted_wrt (\<lambda>a b. \<exists>ra rb. rating a = Val ra \<and> rating b = Val rb \<and> rb \<le> ra) (top_movies s) \<and>
         (\<forall>r. prefix (filter (\<lambda>m. rating m = Val r) (top_movies s))
                (filter (\<lambda>m. rating m = Val r) (genre_group (genre_name s) movies)))"
proof -
  let ?G = "genre_group (genre_name s) movies"
  note r = stats_member(1) [OF assms(1,2)]
  from genre_record_fields(3) [OF r]
  have slice: "top_movies s = slice_to top_count (sorted_reverse rating_key ?G)" .
  with slice_to_take [of top_count "sorted_reverse rating_key ?G"]
  obtain n where top: "top_movies s = take n (sorted_reverse rating_key ?G)"
    by auto
  have len: "int (length (top_movies s)) = min top_count (int (movie_count s))" if "0 \<le> top_count"
    using that by (simp add: slice slice_to_def genre_record_fields(2) [OF r] length_sorted_reverse)
  have rated_top: "rated m" if "m \<in> set (top_movies s)" for m
    using that set_genre_group [of m "genre_name s" movies]
    by (auto simp: top set_sorted_reverse dest: in_set_takeD)
  have "sorted_wrt (\<lambda>a b. rating_key b \<le> rating_key a) (top_movies s)"
    unfolding top by (rule sorted_wrt_take [OF sorted_reverse_descending])
  then have srt:
    "sorted_wrt (\<lambda>a b. \<exists>ra rb. rating a = Val ra \<and> rating b = Val rb \<and> rb \<le> ra) (top_movies s)"
    by (rule sorted_wrt_mono_rel [rotated]) (auto dest!: rated_top rated_rating_key)
  have stable: "prefix (filter (\<lambda>m. rating m = Val k) (top_movies s))
                  (filter (\<lambda>m. rating m = Val k) ?G)" for k
  proof -
    have a: "filter (\<lambda>m. rating m = Val k) xs = filter (\<lambda>m. rating_key m = k) xs"
      if "set xs \<subseteq> set ?G" for xs
    proof (rule filter_cong [OF refl])
      fix m assume "m \<in> set xs"
      with that have "rated m" using set_genre_group [of m "genre_name s" movies] by auto
      from rated_rating_key [OF this] show "(rating m = Val k) = (rating_key m = k)" by auto
    qed
    have "prefix (filter (\<lambda>m. rating_key m = k) (top_movies s))
            (filter (\<lambda>m. rating_key m = k) (sorted_reverse rating_key ?G))"
      unfolding top by (rule prefix_filter_take)
    then have "prefix (filter (\<lambda>m. rating_key m = k) (top_movies s))
                 (filter (\<lambda>m. rating_key m = k) ?G)"
      by (simp only: sorted_reverse_stable)
    moreover have "set (top_movies s) \<subseteq> set ?G"
      by (auto simp: top set_sorted_reverse dest: in_set_takeD)
    ultimately show ?thesis by (simp add: a)
  qed
  from len srt stable show ?thesis by blast
qed

text \<open>
  Of two movies rated 9 and two rated 7, given in the order 7, 9, 7, 9, the top three are
  the two rated 9 and the first one rated 7, each pair in the order of the input.
\<close>

theorem C4_top_movies_witness:
  "calculate_stats double_arithmetic tie_movies 3 = Inr [tie_stats] \<and> (0::int) \<le> 3 \<and>
   int (length tie_top) = min 3 (int 4) \<and>
   sorted_wrt (\<lambda>a b. \<exists>ra rb. rating a = Val ra \<and> rating b = Val rb \<and> rb \<le> ra) tie_top \<and>
   prefix (filter (\<lambda>m. rating m = Val 9) tie_top) (filter (\<lambda>m. rating m = Val 9) tie_movies) \<and>
   prefix (filter (\<lambda>m. rating m = Val 7) tie_top) (filter (\<lambda>m. rating m = Val 7) tie_movies)"
proof -
  have h: "calculate_stats double_arithmetic tie_movies 3 = Inr [tie_stats]" by (rule tie_eval)
  have m: "tie_stats \<in> set [tie_stats]" by simp
  from C4_top_movies [OF h m] tie_group h show ?thesis
    by (simp add: tie_stats_def)
qed

text \<open>
  C7. The records of the output are in the order in which the genres first received a rated
  movie; every record has at least one movie, and a genre whose group is empty has no
  record.
\<close>

theorem C7_output_order:
  assumes "calculate_stats ar movies top_count = Inr stats"
  shows "map genre_name stats = first_seen (rated_genres movies) \<and>
         (\<forall>s \<in> set stats. 0 < movie_count s) \<and>
         (\<forall>g. genre_group g movies = [] \<longrightarrow> g \<notin> genre_name ` set stats)"
proof -
  have "map genre_name stats =
        map (\<lambda>x. case x of Inr s \<Rightarrow> genre_name s | Inl e \<Rightarrow> [])
          (map Inr stats :: (py_error + genre_stats) list)"
    by (simp add: comp_def)
  also have "\<dots> =
        map (\<lambda>g. case genre_record ar g (genre_group g movies) top_count of
                    Inr s \<Rightarrow> genre_name s | Inl e \<Rightarrow> [])
          (first_seen (rated_genres movies))"
    by (simp only: calculate_stats_records [OF assms]) (simp add: comp_def)
  also have "\<dots> = first_seen (rated_genres movies)"
  proof -
    have "(case genre_record ar g (genre_group g movies) top_count of
             Inr s \<Rightarrow> genre_name s | Inl e \<Rightarrow> []) = g"
      if "g \<in> set (first_seen (rated_genres movies))" for g
    proof -
      from that have "genre_record ar g (genre_group g movies) top_count \<in> set (map Inr stats)"
        unfolding calculate_stats_records [OF assms] by simp
      then obtain s where s: "genre_record ar g (genre_group g movies) top_count = Inr s" by auto
      with genre_record_fields(1) [OF s] show ?thesis by simp
    qed
    then show ?thesis by (simp add: map_idI)
  qed
  finally have names: "map genre_name stats = first_seen (rated_genres movies)" .
  have pos: "0 < movie_count s \<and> genre_group (genre_name s) movies \<noteq> []" if "s \<in> set stats" for s
  proof -
    note m = stats_member [OF assms that]
    from m(2) have "genre_name s \<in> fst ` set (memberships movies)"
      by (simp add: map_fst_memberships [symmetric])
    then have "genre_group (genre_name s) movies \<noteq> []"
      by (force simp: genre_group_def filter_empty_conv)
    with genre_record_fields(2) [OF m(1)] show ?thesis by simp
  qed
  from names pos show ?thesis by blast
qed

theorem C7_output_order_witness:
  "map_sum id (map genre_name) (calculate_stats double_arithmetic order_movies 10) =
     Inr [''Drama'', ''Action'', ''Comedy''] \<and>
   first_seen (rated_genres order_movies) = [''Drama'', ''Action'', ''Comedy''] \<and>
   genre_group ''Western'' order_movies = []"
proof -
  from order_eval obtain stats where
    h: "calculate_stats double_arithmetic order_movies 10 = Inr stats"
    and n: "map genre_name stats = [''Drama'', ''Action'', ''Comedy'']"
    by (cases "calculate_stats double_arithmetic order_movies 10") auto
  have w: "genre_group ''Western'' order_movies = []" by code_simp
  from C7_output_order [OF h] n w order_eval show ?thesis by simp
qed

text \<open>
  C9. A rated movie stands in the group of a genre once for every occurrence of the genre
  in its genre list (and for every occurrence of the movie in the input), and the movie
  count, the total of votes, the two averages and the top movies of the record are computed
  from the group with these repetitions: each average is what the arithmetic of the
  runtime gives for the sum over the group, divided by its length and rounded.
\<close>

theorem C9_repeated_genre:
  assumes "calculate_stats ar movies top_count = Inr stats" and "s \<in> set stats"
  shows "(\<forall>m. rated m \<longrightarrow>
            count_list (genre_group (genre_name s) movies) m =
              count_list movies m * count_list (genres_of m) (genre_name s)) \<and>
         movie_count s = length (genre_group (genre_name s) movies) \<and>
         total_votes s =
           sum_list (map (\<lambda>m. field_value (vote_count m)) (genre_group (genre_name s) movies)) \<and>
         average_rating s =
           round_2 ar
             (true_div ar
                (float_sum ar (map (\<lambda>m. field_value (rating m)) (genre_group (genre_name s) movies)))
                (length (genre_group (genre_name s) movies))) \<and>
         average_popularity s =
           round_2 ar
             (true_div ar
                (float_sum ar (map (\<lambda>m. field_value (popularity m)) (genre_group (genre_name s) movies)))
                (length (genre_group (genre_name s) movies))) \<and>
         top_movies s =
           slice_to top_count (sorted_reverse rating_key (genre_group (genre_name s) movies))"
proof -
  note r = stats_member(1) [OF assms]
  from genre_record_fields(2,3) [OF r] genre_record_sums [OF r] show ?thesis
    by (simp add: count_list_genre_group)
qed

text \<open>
  In double precision: a movie rated 5.05 that names its genre twice and a movie rated 4
  give a group of three, with the average \<^verbatim>\<open>round((5.05 + 5.05 + 4) / 3, 2) = 4.7\<close>, the
  votes of the first movie counted twice, and the first movie twice among the top movies.
\<close>

theorem C9_repeated_genre_witness:
  "popular_genre_names [] unresolved_entry = Inr [''Other'', ''Other''] \<and>
   calculate_stats double_arithmetic [twice_other] 10 = Inr [twice_other_stats] \<and>
   calculate_stats double_arithmetic uneven_movies 10 = Inr [uneven_stats] \<and>
   genre_group ''Other'' uneven_movies = [rated_twice, rated_twice, rated_once] \<and>
   movie_count uneven_stats = length [rated_twice, rated_twice, rated_once] \<and>
   total_votes uneven_stats =
     sum_list (map (\<lambda>m. field_value (vote_count m)) [rated_twice, rated_twice, rated_once]) \<and>
   average_rating uneven_stats =
     round_2 double_arithmetic
       (true_div double_arithmetic
          (float_sum double_arithmetic
             (map (\<lambda>m. field_value (rating m)) [rated_twice, rated_twice, rated_once]))
          (length [rated_twice, rated_twice, rated_once])) \<and>
   top_movies uneven_stats = [rated_twice, rated_twice, rated_once] \<and>
   movie_count uneven_stats = 3 \<and> total_votes uneven_stats = 24 \<and>
   average_rating uneven_stats = to_double (47 / 10)"
proof -
  have m: "uneven_stats \<in> set [uneven_stats]" by simp
  have n: "genre_name uneven_stats = ''Other''" by (simp add: uneven_stats_def)
  note t = C9_repeated_genre [OF uneven_eval m]
  from t have
    "movie_count uneven_stats = length (genre_group (genre_name uneven_stats) uneven_movies) \<and>
     total_votes uneven_stats =
       sum_list (map (\<lambda>m. field_value (vote_count m))
         (genre_group (genre_name uneven_stats) uneven_movies)) \<and>
     average_rating uneven_stats =
       round_2 double_arithmetic
         (true_div double_arithmetic
            (float_sum double_arithmetic
               (map (\<lambda>m. field_value (rating m))
                  (genre_group (genre_name uneven_stats) uneven_movies)))
            (length (genre_group (genre_name uneven_stats) uneven_movies)))"
    by blast
  then have main:
    "movie_count uneven_stats = length [rated_twice, rated_twice, rated_once] \<and>
     total_votes uneven_stats =
       sum_list (map (\<lambda>m. field_value (vote_count m)) [rated_twice, rated_twice, rated_once]) \<and>
     average_rating uneven_stats =
       round_2 double_arithmetic
         (true_div double_arithmetic
            (float_sum double_arithmetic
               (map (\<lambda>m. field_value (rating m)) [rated_twice, rated_twice, rated_once]))
            (length [rated_twice, rated_twice, rated_once]))"
    by (simp only: n uneven_group)
  have c: "top_movies uneven_stats = [rated_twice, rated_twice, rated_once] \<and>
           movie_count uneven_stats = 3 \<and> total_votes uneven_stats = 24 \<and>
           average_rating uneven_stats = to_double (47 / 10)"
    by (simp add: uneven_stats_def)
  from main c uneven_eval uneven_group twice_eval unresolved_names show ?thesis
    by blast
qed

section \<open>The state of the fetchers\<close>

lemma distinct_filter_one:
  "distinct (map f xs) \<Longrightarrow> y \<in> f ` set xs \<Longrightarrow> length (filter (\<lambda>x. f x = y) xs) = 1"
proof (induction xs)
  case Nil
  then show ?case by simp
next
  case (Cons a xs)
  show ?case
  proof (cases "f a = y")
    case True
    with Cons.prems have "y \<notin> f ` set xs" by auto
    then have "filter (\<lambda>x. f x = y) xs = []"
      by (auto simp: filter_empty_conv)
    with True show ?thesis by simp
  next
    case False
    with Cons show ?thesis by auto
  qed
qed

lemma make_item_id: "make_item m gn = Inr it \<Longrightarrow> raw_id m = Some (item_id it)"
  by (auto simp: make_item_def split: option.splits)

lemma make_item_total: "complete m \<Longrightarrow> \<exists>it. make_item m gn = Inr it \<and> genres it = Val gn"
  by (auto simp: complete_def make_item_def)

lemma consistent_initial: "consistent initial_state"
  by (simp add: consistent_def initial_state_def)

lemma consistent_count_duplicate: "consistent st \<Longrightarrow> consistent (count_duplicate st)"
  by (simp add: consistent_def count_duplicate_def)

lemma consistent_retain:
  "consistent st \<Longrightarrow> i \<notin> seen_ids st \<Longrightarrow> item_id it = i \<Longrightarrow> consistent (retain i it st)"
  by (auto simp: consistent_def retain_def)

lemma consistent_card: "consistent st \<Longrightarrow> card (seen_ids st) = length (processed_movies st)"
  using distinct_card [of "map item_id (processed_movies st)"] by (simp add: consistent_def)

lemma extends_refl: "extends st st"
  by (simp add: extends_def)

lemma extends_trans: "extends a b \<Longrightarrow> extends b c \<Longrightarrow> extends a c"
  by (auto simp: extends_def intro: prefix_order.trans)

lemma extends_count_duplicate: "extends st (count_duplicate st)"
  by (simp add: extends_def count_duplicate_def)

lemma extends_retain: "extends st (retain i it st)"
  by (auto simp: extends_def retain_def)

text \<open>Every loop of \<^verbatim>\<open>get_popular_movies\<close> keeps the state consistent and extends it.\<close>

lemma popular_entry_Inr:
  "popular_entry gm st m = Inr st' \<Longrightarrow> (consistent st \<longrightarrow> consistent st') \<and> extends st st'"
  by (auto simp: popular_entry_def split: option.splits if_splits sum.splits
      dest!: make_item_id intro: consistent_count_duplicate consistent_retain
        extends_count_duplicate extends_retain)

lemma popular_entries_Inr:
  "popular_entries gm st ms = Inr st' \<Longrightarrow> (consistent st \<longrightarrow> consistent st') \<and> extends st st'"
proof (induction ms arbitrary: st)
  case Nil
  then show ?case by (simp add: extends_refl)
next
  case (Cons m ms)
  from Cons.prems obtain st1 where 1: "popular_entry gm st m = Inr st1"
    and 2: "popular_entries gm st1 ms = Inr st'"
    by (auto split: sum.splits)
  from popular_entry_Inr [OF 1] Cons.IH [OF 2] show ?case
    by (auto intro: extends_trans)
qed

lemma popular_pages_Inr:
  "popular_pages gm api st pages = Inr st' \<Longrightarrow> (consistent st \<longrightarrow> consistent st') \<and> extends st st'"
proof (induction pages arbitrary: st)
  case Nil
  then show ?case by (simp add: extends_refl)
next
  case (Cons p pages)
  show ?case
  proof (cases "status_code (api p) = 200")
    case True
    with Cons.prems obtain st1 where 1: "popular_entries gm st (movies_on_page (api p)) = Inr st1"
      and 2: "popular_pages gm api st1 pages = Inr st'"
      by (auto split: sum.splits)
    from popular_entries_Inr [OF 1] Cons.IH [OF 2] show ?thesis
      by (auto intro: extends_trans)
  next
    case False
    with Cons.prems have "popular_pages gm api st pages = Inr st'" by simp
    from Cons.IH [OF this] show ?thesis .
  qed
qed

text \<open>So does every loop of \<^verbatim>\<open>get_representative_movies\<close>.\<close>

lemma representative_entry_Inr:
  "representative_entry gm sc m = Inr sc' \<Longrightarrow>
   (consistent (fst sc) \<longrightarrow> consistent (fst sc')) \<and> extends (fst sc) (fst sc') \<and> snd sc' = snd sc + 1"
  by (auto simp: representative_entry_def split: option.splits if_splits sum.splits
      dest!: make_item_id intro: consistent_count_duplicate consistent_retain
        extends_count_duplicate extends_retain)

lemma representative_entries_Inr:
  "representative_entries gm target sc ms = Inr sc' \<Longrightarrow>
   (consistent (fst sc) \<longrightarrow> consistent (fst sc')) \<and> extends (fst sc) (fst sc')"
proof (induction ms arbitrary: sc)
  case Nil
  then show ?case by (simp add: extends_refl)
next
  case (Cons m ms)
  show ?case
  proof (cases "target \<le> snd sc")
    case True
    with Cons.prems show ?thesis by (simp add: extends_refl)
  next
    case False
    with Cons.prems obtain sc1 where 1: "representative_entry gm sc m = Inr sc1"
      and 2: "representative_entries gm target sc1 ms = Inr sc'"
      by (auto split: sum.splits)
    from representative_entry_Inr [OF 1] Cons.IH [OF 2] show ?thesis
      by (auto intro: extends_trans)
  qed
qed

lemma representative_pages_Inr:
  "representative_pages gm api target gid sc pages = Inr st' \<Longrightarrow>
   (consistent (fst sc) \<longrightarrow> consistent st') \<and> extends (fst sc) st'"
proof (induction pages arbitrary: sc)
  case Nil
  then show ?case by (simp add: extends_refl)
next
  case (Cons p pages)
  show ?case
  proof (cases "\<not> target \<le> snd sc \<and> status_code (api gid p) = 200 \<and> movies_on_page (api gid p) \<noteq> []")
    case True
    with Cons.prems obtain sc1 where
      1: "representative_entries gm target sc (movies_on_page (api gid p)) = Inr sc1"
      and 2: "representative_pages gm api target gid sc1 pages = Inr st'"
      by (auto split: sum.splits)
    from representative_entries_Inr [OF 1] Cons.IH [OF 2] show ?thesis
      by (auto intro: extends_trans)
  next
    case False
    with Cons.prems have "st' = fst sc" by (auto split: if_splits)
    then show ?thesis by (simp add: extends_refl)
  qed
qed

lemma representative_genres_Inr:
  "representative_genres gm api target st rest = Inr st' \<Longrightarrow>
   (consistent st \<longrightarrow> consistent st') \<and> extends st st'"
proof (induction rest arbitrary: st)
  case Nil
  then show ?case by (simp add: extends_refl)
next
  case (Cons g rest)
  obtain gid name where g: "g = (gid, name)" by (cases g)
  with Cons.prems obtain st1 where
    1: "representative_pages gm api target gid (st, 0) [1..pages_to_fetch target] = Inr st1"
    and 2: "representative_genres gm api target st1 rest = Inr st'"
    by (auto split: sum.splits)
  from representative_pages_Inr [OF 1] Cons.IH [OF 2] show ?case
    by (auto intro: extends_trans)
qed

text \<open>Neither fetcher raises when no key it reads with \<^verbatim>\<open>m[...]\<close> is missing.\<close>

lemma popular_entry_total:
  "complete m \<Longrightarrow> raw_genre_ids m \<noteq> Absent \<Longrightarrow> \<exists>st'. popular_entry gm st m = Inr st'"
  by (auto simp: complete_def popular_entry_def popular_genre_names_def make_item_def
      split: field.splits)

lemma popular_entries_total:
  "\<forall>m \<in> set ms. complete m \<and> raw_genre_ids m \<noteq> Absent \<Longrightarrow> \<exists>st'. popular_entries gm st ms = Inr st'"
proof (induction ms arbitrary: st)
  case Nil
  then show ?case by simp
next
  case (Cons m ms)
  then obtain st1 where "popular_entry gm st m = Inr st1"
    using popular_entry_total [of m gm st] by auto
  with Cons show ?case by simp
qed

lemma popular_pages_total:
  "\<forall>p \<in> set pages. \<forall>m \<in> set (movies_on_page (api p)). complete m \<and> raw_genre_ids m \<noteq> Absent \<Longrightarrow>
   \<exists>st'. popular_pages gm api st pages = Inr st'"
proof (induction pages arbitrary: st)
  case Nil
  then show ?case by simp
next
  case (Cons p pages)
  then obtain st1 where "popular_entries gm st (movies_on_page (api p)) = Inr st1"
    using popular_entries_total [of "movies_on_page (api p)" gm st] by auto
  with Cons show ?case by simp
qed

lemma representative_entry_total:
  "complete m \<Longrightarrow> \<exists>sc'. representative_entry gm sc m = Inr sc'"
  by (auto simp: complete_def representative_entry_def make_item_def)

lemma representative_entries_total:
  "\<forall>m \<in> set ms. complete m \<Longrightarrow> \<exists>sc'. representative_entries gm target sc ms = Inr sc'"
proof (induction ms arbitrary: sc)
  case Nil
  then show ?case by simp
next
  case (Cons m ms)
  then obtain sc1 where "representative_entry gm sc m = Inr sc1"
    using representative_entry_total [of m gm sc] by auto
  with Cons show ?case by simp
qed

lemma representative_pages_total:
  "\<forall>p \<in> set pages. \<forall>m \<in> set (movies_on_page (api gid p)). complete m \<Longrightarrow>
   \<exists>st'. representative_pages gm api target gid sc pages = Inr st'"
proof (induction pages arbitrary: sc)
  case Nil
  then show ?case by simp
next
  case (Cons p pages)
  then obtain sc1 where
    "representative_entries gm target sc (movies_on_page (api gid p)) = Inr sc1"
    using representative_entries_total [of "movies_on_page (api gid p)" gm target sc] by auto
  with Cons show ?case by simp
qed

lemma representative_genres_total:
  "\<forall>g \<in> set rest. \<forall>p. \<forall>m \<in> set (movies_on_page (api (fst g) p)). complete m \<Longrightarrow>
   \<exists>st'. representative_genres gm api target st rest = Inr st'"
proof (induction rest arbitrary: st)
  case Nil
  then show ?case by simp
next
  case (Cons g rest)
  obtain gid name where g: "g = (gid, name)" by (cases g)
  with Cons.prems obtain st1 where
    "representative_pages gm api target gid (st, 0) [1..pages_to_fetch target] = Inr st1"
    using representative_pages_total [of "[1..pages_to_fetch target]" api gid gm target "(st, 0)"]
    by auto
  with Cons g show ?case by simp
qed

section \<open>Evaluations of the fetchers\<close>

lemma pages_to_fetch_div: "pages_to_fetch target = - (- target div 20)"
  using ceiling_divide_eq_div [of target 20, where ?'a = rat] by (simp add: pages_to_fetch_def)

lemma pages_1: "pages_to_fetch 1 = 1"
  by (simp add: pages_to_fetch_div)

lemma upto_1: "[1..1] = [1::int]"
  by (simp add: upto.simps)

lemma action_eval:
  "representative_pages two_genres shared_api 1 28 (initial_state, 0) [1..pages_to_fetch 1] = Inr after_action"
  by (simp add: pages_1 upto_1 shared_api_def ok_page_def movies_on_page_def entry_def
      representative_entry_def initial_state_def make_item_def representative_genre_names_def
      genre_map_get_def two_genres_def stored_def retain_def after_action_def fetched_def)

lemma shared_eval: "representative_run two_genres shared_api 1 = Inr after_comedy"
  by (simp add: representative_run_def pages_1 upto_1 shared_api_def ok_page_def movies_on_page_def entry_def
      representative_entry_def initial_state_def make_item_def representative_genre_names_def
      genre_map_get_def two_genres_def stored_def retain_def after_comedy_def fetched_def count_duplicate_def)

lemma shared_21_eval: "representative_run two_genres shared_api 21 =
   Inr \<lparr> processed_movies = [fetched 7 [''Action'', ''Comedy''], fetched 8 [''Comedy'']],
         seen_ids = {7, 8}, duplicates_count = 1 \<rparr>"
  by code_simp

lemma single_eval: "popular_run two_genres single_page 1 =
   Inr \<lparr> processed_movies = [fetched 7 [''Action'']], seen_ids = {7}, duplicates_count = 0 \<rparr>"
  by code_simp

lemma doubled_eval: "popular_run two_genres doubled_page 1 =
   Inr \<lparr> processed_movies = [fetched 7 [''Action'']], seen_ids = {7}, duplicates_count = 1 \<rparr>"
  by code_simp

lemma single_rep_eval2: "representative_run two_genres (\<lambda>g. single_page) 2 =
   Inr \<lparr> processed_movies = [fetched 7 [''Action'']], seen_ids = {7}, duplicates_count = 1 \<rparr>"
  by code_simp

lemma doubled_rep_eval: "representative_run two_genres (\<lambda>g. doubled_page) 2 =
   Inr \<lparr> processed_movies = [fetched 7 [''Action'']], seen_ids = {7}, duplicates_count = 3 \<rparr>"
  by code_simp

lemma flaky_eval: "popular_run two_genres flaky_api 3 =
   Inr \<lparr> processed_movies = [fetched 1 [''Action''], fetched 3 [''Action'']], seen_ids = {1, 3},
         duplicates_count = 0 \<rparr>"
  by code_simp

lemma no_genre_ids_popular: "get_popular_movies two_genres no_genre_ids_api 1 = Inl KeyError"
  by code_simp

lemma no_genre_ids_representative:
  "get_representative_movies two_genres (\<lambda>g. no_genre_ids_api) 1 = Inr [fetched 9 [''Other'']]"
  by code_simp

section \<open>Claims about the fetchers\<close>

text \<open>
  C1. In \<^verbatim>\<open>get_representative_movies\<close>, an entry that the loop reaches (the limit of the genre
  is not reached yet) and whose id is already in \<^verbatim>\<open>seen_ids\<close> adds one to
  \<^verbatim>\<open>duplicates_count\<close> and one to the count collected for the genre, and changes nothing
  else: no movie is appended, and the entries after it are processed with the increased
  count. Hence an entry that was kept while an earlier genre was processed (one movie more
  with its id) stands once among the movies kept at any later state of the run, and when a
  later genre reaches it there, it counts one duplicate and one toward the quota of that
  genre.
\<close>

theorem C1_seen_entry_counts:
  "(raw_id m = Some i \<and> i \<in> seen_ids st \<and> c < target \<longrightarrow>
      representative_entry gm (st, c) m =
        Inr (st\<lparr> duplicates_count := duplicates_count st + 1 \<rparr>, c + 1) \<and>
      representative_entries gm target (st, c) (m # ms) =
        representative_entries gm target
          (st\<lparr> duplicates_count := duplicates_count st + 1 \<rparr>, c + 1) ms) \<and>
   (raw_id m = Some i \<and> i \<notin> seen_ids st0 \<and> representative_entry gm (st0, c0) m = Inr (st1, c1) \<and>
    extends st1 st \<and> consistent st \<and> c < target \<longrightarrow>
      length (filter (\<lambda>x. item_id x = i) (processed_movies st1)) =
        Suc (length (filter (\<lambda>x. item_id x = i) (processed_movies st0))) \<and>
      length (filter (\<lambda>x. item_id x = i) (processed_movies st)) = 1 \<and>
      representative_entry gm (st, c) m =
        Inr (st\<lparr> duplicates_count := duplicates_count st + 1 \<rparr>, c + 1))"
proof -
  have dup: "representative_entry gm (st, c) m =
        Inr (st\<lparr> duplicates_count := duplicates_count st + 1 \<rparr>, c + 1)"
    if "raw_id m = Some i" "i \<in> seen_ids st" for st c
    using that by (simp add: representative_entry_def count_duplicate_def)
  have kept: "length (filter (\<lambda>x. item_id x = i) (processed_movies st1)) =
        Suc (length (filter (\<lambda>x. item_id x = i) (processed_movies st0))) \<and> i \<in> seen_ids st1"
    if "raw_id m = Some i" "i \<notin> seen_ids st0" "representative_entry gm (st0, c0) m = Inr (st1, c1)"
    using that
    by (auto simp: representative_entry_def retain_def split: sum.splits dest!: make_item_id)
  have once: "length (filter (\<lambda>x. item_id x = i) (processed_movies st)) = 1 \<and> i \<in> seen_ids st"
    if "i \<in> seen_ids st1" "extends st1 st" "consistent st"
  proof -
    from that(1,2) have i: "i \<in> seen_ids st" by (auto simp: extends_def)
    with that(3) distinct_filter_one [of item_id "processed_movies st" i] show ?thesis
      by (simp add: consistent_def)
  qed
  show ?thesis
    using dup kept once by simp
qed

text \<open>
  The run on two genres that share movie 7, with one movie wanted per genre: the movie is
  kept while the first genre is processed; in the second genre it counts as a duplicate
  and fills the quota, so that movie 8 after it is not read.
\<close>

theorem C1_seen_entry_counts_witness:
  "representative_entry two_genres (initial_state, 0) (entry 7 (Val [28, 35])) = Inr (after_action, 1) \<and>
   representative_pages two_genres shared_api 1 28 (initial_state, 0) [1..pages_to_fetch 1] =
     Inr after_action \<and>
   length (filter (\<lambda>x. item_id x = 7) (processed_movies after_action)) = 1 \<and>
   representative_entry two_genres (after_action, 0) (entry 7 (Val [28, 35])) = Inr (after_comedy, 1) \<and>
   representative_entries two_genres 1 (after_action, 0) [entry 7 (Val [28, 35]), entry 8 (Val [35])] =
     Inr (after_comedy, 1) \<and>
   representative_run two_genres shared_api 1 = Inr after_comedy"
proof -
  have a: "raw_id (entry 7 (Val [28, 35])) = Some 7" by (simp add: entry_def)
  have b: "7 \<in> seen_ids after_action \<and> 7 \<notin> seen_ids initial_state"
    by (simp add: after_action_def initial_state_def)
  have c: "(0::int) < 1" by simp
  have d: "after_action\<lparr> duplicates_count := duplicates_count after_action + 1 \<rparr> = after_comedy"
    by (simp add: after_action_def after_comedy_def)
  have e: "representative_entry two_genres (initial_state, 0) (entry 7 (Val [28, 35])) =
             Inr (after_action, 1)"
    by (simp add: representative_entry_def entry_def initial_state_def make_item_def
        representative_genre_names_def genre_map_get_def two_genres_def stored_def retain_def
        after_action_def fetched_def)
  have f: "extends after_action after_action \<and> consistent after_action"
    by (simp add: extends_refl consistent_def after_action_def fetched_def)
  from C1_seen_entry_counts [where m = "entry 7 (Val [28, 35])" and i = 7 and st = after_action
      and c = 0 and target = 1 and gm = two_genres and ms = "[entry 8 (Val [35])]"
      and ?st0.0 = initial_state and ?c0.0 = 0 and ?st1.0 = after_action and ?c1.0 = 1]
    a b c d e f action_eval shared_eval
  show ?thesis by (simp add: initial_state_def)
qed

text \<open>
  C2, as stated: both fetchers return the pair of the movies kept and the number of
  duplicates. They return the list alone: on a page with one entry and on a page with the
  same entry twice either fetcher returns the same value, while the duplicates counted
  differ.
\<close>

theorem C2_returns_pair_counterexample:
  "get_popular_movies two_genres single_page 1 = Inr [fetched 7 [''Action'']] \<and>
   get_popular_movies two_genres doubled_page 1 = Inr [fetched 7 [''Action'']] \<and>
   map_sum id duplicates_count (popular_run two_genres single_page 1) = Inr 0 \<and>
   map_sum id duplicates_count (popular_run two_genres doubled_page 1) = Inr 1 \<and>
   get_representative_movies two_genres (\<lambda>g. single_page) 2 = Inr [fetched 7 [''Action'']] \<and>
   get_representative_movies two_genres (\<lambda>g. doubled_page) 2 = Inr [fetched 7 [''Action'']] \<and>
   map_sum id duplicates_count (representative_run two_genres (\<lambda>g. single_page) 2) = Inr 1 \<and>
   map_sum id duplicates_count (representative_run two_genres (\<lambda>g. doubled_page) 2) = Inr 3"
  by (simp add: get_popular_movies_def get_representative_movies_def single_eval doubled_eval
      single_rep_eval2 doubled_rep_eval)

text \<open>
  C2, amended: what either fetcher returns is the list \<^verbatim>\<open>processed_movies\<close> of its last
  state and nothing else; the ids of the list are pairwise distinct and are the ids seen.
\<close>

theorem C2_returns_distinct_movies:
  "(get_popular_movies gm api pages = Inr items \<longrightarrow>
      (\<exists>st. popular_run gm api pages = Inr st \<and> items = processed_movies st \<and>
            seen_ids st = item_id ` set items) \<and> distinct (map item_id items)) \<and>
   (get_representative_movies gm api2 target = Inr items2 \<longrightarrow>
      (\<exists>st. representative_run gm api2 target = Inr st \<and> items2 = processed_movies st \<and>
            seen_ids st = item_id ` set items2) \<and> distinct (map item_id items2))"
proof -
  have 1: "consistent st" if "popular_run gm api pages = Inr st" for st
    using that popular_pages_Inr [of gm api initial_state "[1..pages]" st] consistent_initial
    by (simp add: popular_run_def)
  have 2: "consistent st" if "representative_run gm api2 target = Inr st" for st
    using that representative_genres_Inr [of gm api2 target initial_state gm st] consistent_initial
    by (simp add: representative_run_def)
  show ?thesis
    by (auto simp: get_popular_movies_def get_representative_movies_def consistent_def
        split: sum.splits dest!: 1 2)
qed

theorem C2_returns_distinct_movies_witness:
  "get_popular_movies two_genres doubled_page 1 = Inr [fetched 7 [''Action'']] \<and>
   get_representative_movies two_genres (\<lambda>g. doubled_page) 2 = Inr [fetched 7 [''Action'']] \<and>
   distinct (map item_id [fetched 7 [''Action'']])"
proof -
  have a: "get_popular_movies two_genres doubled_page 1 = Inr [fetched 7 [''Action'']]"
    by (simp add: get_popular_movies_def doubled_eval)
  have b: "get_representative_movies two_genres (\<lambda>g. doubled_page) 2 = Inr [fetched 7 [''Action'']]"
    by (simp add: get_representative_movies_def doubled_rep_eval)
  from C2_returns_distinct_movies [of two_genres doubled_page 1 "[fetched 7 [''Action'']]"
      "\<lambda>g. doubled_page" 2 "[fetched 7 [''Action'']]"] a b
  show ?thesis by simp
qed

text \<open>
  C5. The claim fails on the code for a movie made by a fetcher from an entry without
  \<^verbatim>\<open>popularity\<close> or \<^verbatim>\<open>vote_count\<close>: the fetcher stores \<^verbatim>\<open>None\<close> under the key, the default
  of \<^verbatim>\<open>m.get(k, 0)\<close> is not used for a key that is present, and \<^verbatim>\<open>calculate_stats\<close> raises
  \<^verbatim>\<open>TypeError\<close>. A missing key does count as zero.
\<close>

theorem C5_stored_none_raises:
  "get_representative_movies two_genres (\<lambda>g. no_popularity_api) 1 =
     Inr [(fetched 7 [''Action''])\<lparr> popularity := Null \<rparr>] \<and>
   calculate_stats ar [(fetched 7 [''Action''])\<lparr> popularity := Null \<rparr>] 10 = Inl TypeError \<and>
   get_representative_movies two_genres (\<lambda>g. no_votes_api) 1 =
     Inr [(fetched 7 [''Action''])\<lparr> vote_count := Null \<rparr>] \<and>
   calculate_stats ar [(fetched 7 [''Action''])\<lparr> vote_count := Null \<rparr>] 10 = Inl TypeError \<and>
   map_sum id (map average_popularity)
     (calculate_stats double_arithmetic [(fetched 7 [''Action''])\<lparr> popularity := Absent \<rparr>] 10) =
     Inr [0]"
proof -
  have 1: "get_representative_movies two_genres (\<lambda>g. no_popularity_api) 1 =
     Inr [(fetched 7 [''Action''])\<lparr> popularity := Null \<rparr>]"
    by code_simp
  have 2: "calculate_stats ar [(fetched 7 [''Action''])\<lparr> popularity := Null \<rparr>] 10 = Inl TypeError"
    by (simp add: calculate_stats_def has_rating_def fetched_def genre_record_def)
  have 3: "get_representative_movies two_genres (\<lambda>g. no_votes_api) 1 =
     Inr [(fetched 7 [''Action''])\<lparr> vote_count := Null \<rparr>]"
    by code_simp
  have 4: "calculate_stats ar [(fetched 7 [''Action''])\<lparr> vote_count := Null \<rparr>] 10 = Inl TypeError"
    by (simp add: calculate_stats_def has_rating_def fetched_def)
  have 5: "map_sum id (map average_popularity)
     (calculate_stats double_arithmetic [(fetched 7 [''Action''])\<lparr> popularity := Absent \<rparr>] 10) =
     Inr [0]"
    by code_simp
  from 1 2 3 4 5 show ?thesis by simp
qed

text \<open>
  C6. When \<^verbatim>\<open>get_representative_movies\<close> reaches its end, \<^verbatim>\<open>seen_ids\<close> has as many elements
  as \<^verbatim>\<open>processed_movies\<close>: the ids seen are the ids of the movies kept, each id once.
\<close>

theorem C6_seen_ids_size:
  assumes "representative_run gm api target = Inr st"
  shows "card (seen_ids st) = length (processed_movies st) \<and>
         seen_ids st = item_id ` set (processed_movies st) \<and>
         distinct (map item_id (processed_movies st))"
proof -
  from assms representative_genres_Inr [of gm api target initial_state gm st] consistent_initial
  have c: "consistent st" by (simp add: representative_run_def)
  from consistent_card [OF c] c show ?thesis by (simp add: consistent_def)
qed

theorem C6_seen_ids_size_witness:
  "representative_run two_genres shared_api 21 =
     Inr \<lparr> processed_movies = [fetched 7 [''Action'', ''Comedy''], fetched 8 [''Comedy'']],
           seen_ids = {7, 8}, duplicates_count = 1 \<rparr> \<and>
   card {7, 8 :: int} = length [fetched 7 [''Action'', ''Comedy''], fetched 8 [''Comedy'']]"
  using C6_seen_ids_size [OF shared_21_eval] shared_21_eval by simp

text \<open>
  C8. A request that does not return status 200 raises nothing. In \<^verbatim>\<open>get_popular_movies\<close>
  the state is left as it is and the loop goes on with the next page. In
  \<^verbatim>\<open>get_representative_movies\<close> the loop over the pages of the genre ends with the state as
  it is, and the loop over the genres goes on from that state. In both, the movies kept so
  far are the first movies of the list at the end.
\<close>

theorem C8_failed_request:
  "(status_code (api page) \<noteq> 200 \<longrightarrow>
      popular_pages gm api st (page # later) = popular_pages gm api st later) \<and>
   (popular_pages gm api st later = Inr st' \<longrightarrow>
      prefix (processed_movies st) (processed_movies st')) \<and>
   (status_code (api2 genre_id page) \<noteq> 200 \<and> snd sc < target \<longrightarrow>
      representative_pages gm api2 target genre_id sc (page # later) = Inr (fst sc)) \<and>
   (representative_pages gm api2 target genre_id (st, 0) [1..pages_to_fetch target] = Inr st1 \<longrightarrow>
      representative_genres gm api2 target st ((genre_id, name) # rest) =
        representative_genres gm api2 target st1 rest) \<and>
   (representative_genres gm api2 target st1 rest = Inr st2 \<longrightarrow>
      prefix (processed_movies st1) (processed_movies st2))"
proof -
  have "prefix (processed_movies st) (processed_movies st')"
    if "popular_pages gm api st later = Inr st'"
    using popular_pages_Inr [OF that] by (simp add: extends_def)
  moreover have "prefix (processed_movies st1) (processed_movies st2)"
    if "representative_genres gm api2 target st1 rest = Inr st2"
    using representative_genres_Inr [OF that] by (simp add: extends_def)
  ultimately show ?thesis by simp
qed

theorem C8_failed_request_witness:
  "status_code (flaky_api 2) \<noteq> 200 \<and>
   popular_pages two_genres flaky_api after_first [2, 3] =
     popular_pages two_genres flaky_api after_first [3] \<and>
   get_popular_movies two_genres flaky_api 3 = Inr [fetched 1 [''Action''], fetched 3 [''Action'']] \<and>
   status_code (shared_api 28 2) \<noteq> 200 \<and>
   representative_pages two_genres shared_api 21 28 (after_action, 1) [2, 3] = Inr after_action \<and>
   get_representative_movies two_genres shared_api 21 =
     Inr [fetched 7 [''Action'', ''Comedy''], fetched 8 [''Comedy'']]"
proof -
  have a: "status_code (flaky_api 2) \<noteq> 200" by (simp add: flaky_api_def failed_page_def)
  have b: "status_code (shared_api 28 2) \<noteq> 200" by (simp add: shared_api_def failed_page_def)
  have c: "snd (after_action, 1::int) < 21" by simp
  from C8_failed_request [where api = flaky_api and page = 2 and gm = two_genres
      and st = after_first and later = "[3]" and ?api2.0 = shared_api and genre_id = 28
      and sc = "(after_action, 1)" and target = 21] a b c
  show ?thesis
    by (simp add: get_popular_movies_def get_representative_movies_def flaky_eval shared_21_eval)
qed

text \<open>
  C10. An entry without \<^verbatim>\<open>genre_ids\<close> gets the genres \<^verbatim>\<open>["Other"]\<close> in
  \<^verbatim>\<open>get_representative_movies\<close> and raises \<^verbatim>\<open>KeyError\<close> in \<^verbatim>\<open>get_popular_movies\<close>, which
  reads the key before it makes the movie. When the key is there the two fetchers
  resolve the same names. If every entry has \<^verbatim>\<open>genre_ids\<close> (and the three keys both
  fetchers read unguarded), \<^verbatim>\<open>get_popular_movies\<close> returns; \<^verbatim>\<open>get_representative_movies\<close>
  returns whether \<^verbatim>\<open>genre_ids\<close> is there or not.
\<close>

theorem C10_absent_genre_ids:
  "(raw_genre_ids m = Absent \<longrightarrow>
      representative_genre_names gm m = [''Other''] \<and> popular_genre_names gm m = Inl KeyError) \<and>
   (raw_genre_ids m = Absent \<and> complete m \<and> raw_id m = Some i \<and> i \<notin> seen_ids st \<longrightarrow>
      popular_entry gm st m = Inl KeyError \<and>
      (\<exists>it. representative_entry gm (st, c) m = Inr (retain i it st, c + 1) \<and>
            genres it = Val [''Other''])) \<and>
   (raw_genre_ids m \<noteq> Absent \<longrightarrow> popular_genre_names gm m = Inr (representative_genre_names gm m)) \<and>
   ((\<forall>page. \<forall>e \<in> set (movies_on_page (api page)). complete e \<and> raw_genre_ids e \<noteq> Absent) \<longrightarrow>
      (\<exists>items. get_popular_movies gm api pages = Inr items)) \<and>
   ((\<forall>g page. \<forall>e \<in> set (movies_on_page (api2 g page)). complete e) \<longrightarrow>
      (\<exists>items. get_representative_movies gm api2 target = Inr items))"
proof -
  have 1: "raw_genre_ids m = Absent \<longrightarrow>
      representative_genre_names gm m = [''Other''] \<and> popular_genre_names gm m = Inl KeyError"
    by (simp add: representative_genre_names_def popular_genre_names_def)
  have 2: "popular_entry gm st m = Inl KeyError \<and>
      (\<exists>it. representative_entry gm (st, c) m = Inr (retain i it st, c + 1) \<and>
            genres it = Val [''Other''])"
    if "raw_genre_ids m = Absent" "complete m" "raw_id m = Some i" "i \<notin> seen_ids st"
    using that make_item_total [of m "[''Other'']"]
    by (auto simp: popular_entry_def popular_genre_names_def representative_entry_def
        representative_genre_names_def)
  have 3: "raw_genre_ids m \<noteq> Absent \<longrightarrow>
      popular_genre_names gm m = Inr (representative_genre_names gm m)"
    by (simp add: representative_genre_names_def popular_genre_names_def split: field.splits)
  have 4: "\<exists>items. get_popular_movies gm api pages = Inr items"
    if "\<forall>page. \<forall>e \<in> set (movies_on_page (api page)). complete e \<and> raw_genre_ids e \<noteq> Absent"
    using popular_pages_total [of "[1..pages]" api gm initial_state] that
    by (auto simp: get_popular_movies_def popular_run_def)
  have 5: "\<exists>items. get_representative_movies gm api2 target = Inr items"
    if "\<forall>g page. \<forall>e \<in> set (movies_on_page (api2 g page)). complete e"
    using representative_genres_total [of gm api2 gm target initial_state] that
    by (auto simp: get_representative_movies_def representative_run_def)
  from 1 2 3 4 5 show ?thesis by blast
qed

theorem C10_absent_genre_ids_witness:
  "raw_genre_ids (entry 9 Absent) = Absent \<and>
   representative_genre_names two_genres (entry 9 Absent) = [''Other''] \<and>
   popular_genre_names two_genres (entry 9 Absent) = Inl KeyError \<and>
   popular_entry two_genres initial_state (entry 9 Absent) = Inl KeyError \<and>
   get_popular_movies two_genres no_genre_ids_api 1 = Inl KeyError \<and>
   get_representative_movies two_genres (\<lambda>g. no_genre_ids_api) 1 = Inr [fetched 9 [''Other'']] \<and>
   get_popular_movies two_genres single_page 1 = Inr [fetched 7 [''Action'']]"
proof -
  have a: "raw_genre_ids (entry 9 Absent) = Absent" by (simp add: entry_def)
  have b: "complete (entry 9 Absent) \<and> raw_id (entry 9 Absent) = Some 9 \<and> 9 \<notin> seen_ids initial_state"
    by (simp add: entry_def complete_def initial_state_def)
  have c: "\<forall>page. \<forall>e \<in> set (movies_on_page (single_page page)).
             complete e \<and> raw_genre_ids e \<noteq> Absent"
    by (simp add: single_page_def ok_page_def movies_on_page_def entry_def complete_def)
  have d: "get_popular_movies two_genres single_page 1 = Inr [fetched 7 [''Action'']]"
    by (simp add: get_popular_movies_def single_eval)
  from C10_absent_genre_ids [where m = "entry 9 Absent" and gm = two_genres and i = 9
      and st = initial_state and api = single_page and pages = 1] a b c d
    no_genre_ids_popular no_genre_ids_representative
  show ?thesis by simp
qed

end
